theory Spec2Isabelle
  imports Main "HOL-Library.Sublist"
begin

section \<open>The world the two scripts run in\<close>

text \<open>
  \<^verbatim>\<open>build.py\<close> and \<^verbatim>\<open>push.py\<close> are straight-line scripts. What they do
  beyond computing strings is (a) read the local time with \<^verbatim>\<open>datetime.datetime.today()\<close>,
  (b) call \<^verbatim>\<open>print\<close>, and (c) hand a command string to the shell with
  \<^verbatim>\<open>os.system\<close>, which returns an integer status. All three depend on the process
  environment, which the \<open>world\<close> record describes. A run is observed through its
  trace: the data that reaches file descriptor 1 and the commands that are executed, in
  the order in which they happen, and through its exit code. The model follows a run
  from the first statement of the script to the end of the process; it assumes that the
  interpreter has started and that no signal ends the process early.
\<close>

record datetime =
  year :: int
  month :: int
  day :: int
  hour :: int
  minute :: int
  second :: int
  microsecond :: int

text \<open>
  \<open>Stdout d\<close>: one \<^verbatim>\<open>write\<close> of the data \<open>d\<close> to file descriptor 1 that
  succeeded. \<open>Exec c\<close>: the command \<open>c\<close> was run by \<^verbatim>\<open>os.system\<close>.
\<close>

datatype event = Stdout string | Exec string

text \<open>What file descriptor 1 is when the interpreter starts.\<close>

datatype fd_state = FdClosed | FdTerminal | FdOther

text \<open>
  \<^item> \<open>local_time\<close>: the local time at the moment of the run, as the platform computes
    it for each value of the \<^verbatim>\<open>TZ\<close> environment variable (\<open>None\<close>: not set);
  \<^item> \<open>argv\<close>, \<open>environ\<close>: command-line arguments and environment variables;
  \<^item> \<open>interpreter_u\<close>: the interpreter was started with \<^verbatim>\<open>-u\<close>;
  \<^item> \<open>stdout_fd\<close>: what file descriptor 1 is (closed, a terminal, or a pipe, file
    or device);
  \<^item> \<open>write_ok n d\<close>: whether the \<open>n\<close>-th \<^verbatim>\<open>write\<close> the process attempts on
    file descriptor 1 (counting from 0), with data \<open>d\<close>, succeeds;
  \<^item> \<open>system_status\<close>: the status \<^verbatim>\<open>os.system\<close> returns for a command, given
    everything that happened before it. It is arbitrary, so it covers success, failure
    and death by a signal.
\<close>

record world =
  local_time :: "string option \<Rightarrow> datetime"
  argv :: "string list"
  environ :: "(string \<times> string) list"
  interpreter_u :: bool
  stdout_fd :: fd_state
  write_ok :: "nat \<Rightarrow> string \<Rightarrow> bool"
  system_status :: "event list \<Rightarrow> string \<Rightarrow> int"

datatype py_exception = ValueError | OSError

text \<open>
  The state of the running interpreter: the events so far, the bytes \<^verbatim>\<open>sys.stdout\<close>
  holds in its buffer, and how many writes on file descriptor 1 were attempted.
\<close>

record py_state =
  events :: "event list"
  out_buffer :: string
  writes :: nat

text \<open>The outcome of a script run: the process exit code and the events, in order.\<close>

record run =
  exit_code :: int
  trace :: "event list"

section \<open>The library calls the scripts make\<close>

subsection \<open>\<^verbatim>\<open>datetime.datetime.today()\<close>\<close>

text \<open>The local time; the time zone comes from \<^verbatim>\<open>TZ\<close> when it is set.\<close>

definition today :: "world \<Rightarrow> datetime" where
  "today w = local_time w (map_of (environ w) ''TZ'')"

subsection \<open>\<^verbatim>\<open>"%02d" % n\<close>\<close>

definition digit_char :: "nat \<Rightarrow> char" where
  "digit_char n = ''0123456789'' ! (n mod 10)"

fun dec_digits :: "nat \<Rightarrow> string" where
  "dec_digits n =
     (if n < 10 then [digit_char n] else dec_digits (n div 10) @ [digit_char (n mod 10)])"

declare dec_digits.simps [simp del]

text \<open>
  Python's \<^verbatim>\<open>%02d\<close>: the decimal digits of the integer, a leading \<^verbatim>\<open>-\<close> when it
  is negative, and zeros between sign and digits until the whole field is at least two
  characters wide. Longer numbers are not truncated.
\<close>

definition fmt_02d :: "int \<Rightarrow> string" where
  "fmt_02d n =
     (if n < 0
      then (let s = dec_digits (nat (- n)) in ''-'' @ replicate (1 - length s) (CHR ''0'') @ s)
      else (let s = dec_digits (nat n) in replicate (2 - length s) (CHR ''0'') @ s))"

subsection \<open>\<^verbatim>\<open>sys.stdout\<close>\<close>

text \<open>
  How the interpreter sets up \<^verbatim>\<open>sys.stdout\<close>. With file descriptor 1 closed,
  \<^verbatim>\<open>sys.stdout\<close> is \<^verbatim>\<open>None\<close>. With \<^verbatim>\<open>-u\<close> or a non-empty
  \<^verbatim>\<open>PYTHONUNBUFFERED\<close> every piece of text is written at once. Otherwise a terminal
  is line-buffered, and anything else is block-buffered.
\<close>

datatype stdout_mode = NoStdout | LineBuffered | BlockBuffered | Unbuffered

definition unbuffered :: "world \<Rightarrow> bool" where
  "unbuffered w =
     (interpreter_u w \<or>
      (case map_of (environ w) ''PYTHONUNBUFFERED'' of None \<Rightarrow> False | Some v \<Rightarrow> v \<noteq> []))"

definition stdout_mode :: "world \<Rightarrow> stdout_mode" where
  "stdout_mode w =
     (case stdout_fd w of
        FdClosed \<Rightarrow> NoStdout
      | FdTerminal \<Rightarrow> (if unbuffered w then Unbuffered else LineBuffered)
      | FdOther \<Rightarrow> (if unbuffered w then Unbuffered else BlockBuffered))"

text \<open>One \<^verbatim>\<open>write\<close> on file descriptor 1; a failed one raises \<^verbatim>\<open>OSError\<close>.\<close>

definition fd_write :: "world \<Rightarrow> string \<Rightarrow> py_state \<Rightarrow> (py_exception + unit) \<times> py_state" where
  "fd_write w d s =
     (if write_ok w (writes s) d
      then (Inr (), s\<lparr>events := events s @ [Stdout d], writes := Suc (writes s)\<rparr>)
      else (Inl OSError, s\<lparr>writes := Suc (writes s)\<rparr>))"

text \<open>
  Flushing the buffer writes all of it with one \<^verbatim>\<open>write\<close>; when that fails the data
  stays in the buffer.
\<close>

definition flush_buffer :: "world \<Rightarrow> py_state \<Rightarrow> (py_exception + unit) \<times> py_state" where
  "flush_buffer w s =
     (if out_buffer s = [] then (Inr (), s)
      else (case fd_write w (out_buffer s) s of
              (Inl e, s') \<Rightarrow> (Inl e, s')
            | (Inr u, s') \<Rightarrow> (Inr (), s'\<lparr>out_buffer := []\<rparr>)))"

fun write_all :: "world \<Rightarrow> string list \<Rightarrow> py_state \<Rightarrow> (py_exception + unit) \<times> py_state" where
  "write_all w [] s = (Inr (), s)"
| "write_all w (d # ds) s =
     (case fd_write w d s of
        (Inl e, s') \<Rightarrow> (Inl e, s')
      | (Inr u, s') \<Rightarrow> write_all w ds s')"

subsection \<open>\<^verbatim>\<open>print(a, b)\<close>\<close>

text \<open>
  \<^verbatim>\<open>print(a, b)\<close> hands four pieces to \<^verbatim>\<open>sys.stdout\<close>: \<open>a\<close>, the separator (one
  space), \<open>b\<close>, and the newline. What happens to them depends on the mode:
  \<^item> no \<^verbatim>\<open>sys.stdout\<close>: nothing at all;
  \<^item> block-buffered: the line is kept in the buffer (the lines these scripts print are
    far shorter than the buffer of 8192 bytes, and nothing else is printed before them),
    so nothing reaches file descriptor 1 during the call;
  \<^item> line-buffered: the newline makes the stream flush, so the whole line is written by
    one \<^verbatim>\<open>write\<close> during the call;
  \<^item> unbuffered: each piece is written by its own \<^verbatim>\<open>write\<close> during the call.
\<close>

definition print2 :: "world \<Rightarrow> string \<Rightarrow> string \<Rightarrow> py_state \<Rightarrow> (py_exception + unit) \<times> py_state" where
  "print2 w a b s =
     (case stdout_mode w of
        NoStdout \<Rightarrow> (Inr (), s)
      | BlockBuffered \<Rightarrow> (Inr (), s\<lparr>out_buffer := out_buffer s @ a @ '' '' @ b @ [CHR 0x0A]\<rparr>)
      | LineBuffered \<Rightarrow> flush_buffer w (s\<lparr>out_buffer := out_buffer s @ a @ '' '' @ b @ [CHR 0x0A]\<rparr>)
      | Unbuffered \<Rightarrow> write_all w [a, '' '', b, [CHR 0x0A]] s)"

subsection \<open>\<^verbatim>\<open>os.system(cmd)\<close>\<close>

text \<open>
  \<^verbatim>\<open>os.system\<close> raises \<^verbatim>\<open>ValueError\<close> (embedded null byte) without running anything
  when the command contains a NUL character; otherwise it runs the command and returns
  its status, whatever that is. It does not flush \<^verbatim>\<open>sys.stdout\<close>.
\<close>

definition os_system :: "world \<Rightarrow> string \<Rightarrow> py_state \<Rightarrow> (py_exception + int) \<times> py_state" where
  "os_system w cmd s =
     (if CHR 0x00 \<in> set cmd then (Inl ValueError, s)
      else (Inr (system_status w (events s) cmd), s\<lparr>events := events s @ [Exec cmd]\<rparr>))"

subsection \<open>The end of the process\<close>

text \<open>
  When the script has ended, normally (\<open>code = 0\<close>) or by an exception nobody caught
  (\<open>code = 1\<close>), the interpreter flushes \<^verbatim>\<open>sys.stdout\<close>. When that flush fails the
  exit code becomes 120.
\<close>

definition finalize :: "world \<Rightarrow> int \<Rightarrow> py_state \<Rightarrow> run" where
  "finalize w code s =
     (case flush_buffer w s of
        (Inl e, s') \<Rightarrow> \<lparr>exit_code = 120, trace = events s'\<rparr>
      | (Inr u, s') \<Rightarrow> \<lparr>exit_code = code, trace = events s'\<rparr>)"

definition start :: py_state where
  "start = \<lparr>events = [], out_buffer = [], writes = 0\<rparr>"

section \<open>\<^verbatim>\<open>build.py\<close>\<close>

definition mdate :: "datetime \<Rightarrow> string" where
  "mdate dt = fmt_02d (month dt) @ fmt_02d (day dt)"

definition build_cmd :: "datetime \<Rightarrow> string" where
  "build_cmd dt =
     ''docker build --progress=plain --no-cache=false -f Dockerfile . -t pycsep_quakeworx_workshop '' @
     ''--build-arg APP_UNAME=csepuser --build-arg APP_GRPNAME=csepuser '' @
     ''--build-arg APP_UID=1000 --build-arg APP_GID=1000 --build-arg BDATE='' @ mdate dt"

definition tag_cmd :: string where
  "tag_cmd = ''docker tag pycsep_quakeworx_workshop sceccode/pycsep_quakeworx_workshop''"

text \<open>
  The script itself. The statuses \<open>r1\<close> and \<open>r2\<close> returned by \<^verbatim>\<open>os.system\<close> are
  dropped, as the source drops them. An exception ends the script at the statement that
  raised it.
\<close>

definition build_main :: "world \<Rightarrow> run" where
  "build_main w =
     (let dt = today w;
          cmd = build_cmd dt
      in case os_system w cmd start of
           (Inl e, s) \<Rightarrow> finalize w 1 s
         | (Inr r1, s1) \<Rightarrow>
             (let cmd = tag_cmd
              in case print2 w ''Running: '' cmd s1 of
                   (Inl e, s) \<Rightarrow> finalize w 1 s
                 | (Inr u, s2) \<Rightarrow>
                     (case os_system w cmd s2 of
                        (Inl e, s) \<Rightarrow> finalize w 1 s
                      | (Inr r2, s3) \<Rightarrow> finalize w 0 s3)))"

section \<open>\<^verbatim>\<open>push.py\<close>\<close>

definition push_cmd :: string where
  "push_cmd = ''docker push sceccode/pycsep_quakeworx_workshop''"

definition push_main :: "world \<Rightarrow> run" where
  "push_main w =
     (let cmd = push_cmd
      in case print2 w ''Running: '' cmd start of
           (Inl e, s) \<Rightarrow> finalize w 1 s
         | (Inr u, s1) \<Rightarrow>
             (case os_system w cmd s1 of
                (Inl e, s) \<Rightarrow> finalize w 1 s
              | (Inr r1, s2) \<Rightarrow> finalize w 0 s2))"

section \<open>Reading a run\<close>

fun execs :: "event list \<Rightarrow> string list" where
  "execs [] = []"
| "execs (Exec c # es) = c # execs es"
| "execs (Stdout s # es) = execs es"



text \<open>
  Whether the call \<^verbatim>\<open>print(a, b)\<close> raises. In both scripts it is the first and only
  use of standard output, so neither the buffer nor the count of writes has changed
  since the start.
\<close>

definition print_raises :: "world \<Rightarrow> string \<Rightarrow> string \<Rightarrow> bool" where
  "print_raises w a b = (case fst (print2 w a b start) of Inl e \<Rightarrow> True | Inr u \<Rightarrow> False)"

text \<open>
  The date tag as the specification words it: month and day, each written with exactly
  two decimal digits, the tens digit first.
\<close>

definition spec_two_digits :: "int \<Rightarrow> string" where
  "spec_two_digits n = [digit_char (nat (n div 10)), digit_char (nat (n mod 10))]"

definition spec_MMDD :: "int \<Rightarrow> int \<Rightarrow> string" where
  "spec_MMDD m d = spec_two_digits m @ spec_two_digits d"

text \<open>
  Concrete worlds. \<open>world_ok\<close> and \<open>world_failing\<close> are two runs on 31 December 2025
  (with \<^verbatim>\<open>TZ\<close> not set) in which every write to standard output succeeds; they differ
  in the time of day, the arguments, the environment, what standard output is, and
  whether the container tool succeeds (status 0) or fails (wait status 256, that is exit
  code 1).
\<close>

definition world_ok :: world where
  "world_ok =
     \<lparr>local_time = (\<lambda>tz. \<lparr>year = 2025, month = 12, day = 31, hour = 9, minute = 30,
                             second = 0, microsecond = 0\<rparr>),
      argv = [''build.py''],
      environ = [],
      interpreter_u = False,
      stdout_fd = FdTerminal,
      write_ok = (\<lambda>n d. True),
      system_status = (\<lambda>tr cmd. 0)\<rparr>"

definition world_failing :: world where
  "world_failing =
     \<lparr>local_time = (\<lambda>tz. \<lparr>year = 2025, month = 12, day = 31, hour = 23, minute = 59,
                             second = 58, microsecond = 125000\<rparr>),
      argv = [''build.py'', ''--no-cache'', ''other/image''],
      environ = [(''DOCKER_HOST'', ''tcp://example:2375'')],
      interpreter_u = False,
      stdout_fd = FdOther,
      write_ok = (\<lambda>n d. True),
      system_status = (\<lambda>tr cmd. 256)\<rparr>"


text \<open>Standard output is a device on which every write fails (\<^verbatim>\<open>> /dev/full\<close>).\<close>

definition world_full :: world where
  "world_full = world_ok\<lparr>stdout_fd := FdOther, write_ok := (\<lambda>n d. False)\<rparr>"

text \<open>The same, with \<^verbatim>\<open>PYTHONUNBUFFERED=1\<close> in the environment.\<close>

definition world_full_unbuffered :: world where
  "world_full_unbuffered = world_full\<lparr>environ := [(''PYTHONUNBUFFERED'', ''1'')]\<rparr>"

text \<open>
  One instant, 4 November 2026 06:33:33 UTC, seen from two time zones: with
  \<^verbatim>\<open>TZ=UTC-14\<close> the local date is 4 November, with \<^verbatim>\<open>TZ=UTC+12\<close> it is
  3 November. The two worlds differ in the value of \<^verbatim>\<open>TZ\<close> and in nothing else.
\<close>

definition world_tz_east :: world where
  "world_tz_east =
     \<lparr>local_time = (\<lambda>tz.
        if tz = Some ''UTC-14''
        then \<lparr>year = 2026, month = 11, day = 4, hour = 20, minute = 33, second = 33,
              microsecond = 0\<rparr>
        else if tz = Some ''UTC+12''
        then \<lparr>year = 2026, month = 11, day = 3, hour = 18, minute = 33, second = 33,
              microsecond = 0\<rparr>
        else \<lparr>year = 2026, month = 11, day = 4, hour = 6, minute = 33, second = 33,
              microsecond = 0\<rparr>),
      argv = [''build.py''],
      environ = [(''TZ'', ''UTC-14'')],
      interpreter_u = False,
      stdout_fd = FdTerminal,
      write_ok = (\<lambda>n d. True),
      system_status = (\<lambda>tr cmd. 0)\<rparr>"

definition world_tz_west :: world where
  "world_tz_west = world_tz_east\<lparr>environ := [(''TZ'', ''UTC+12'')]\<rparr>"

section \<open>Facts about the formatting\<close>

lemma dec_digits_small: "n < 10 \<Longrightarrow> dec_digits n = [digit_char n]"
  by (subst dec_digits.simps) simp

lemma dec_digits_two:
  "10 \<le> n \<Longrightarrow> n < 100 \<Longrightarrow> dec_digits n = [digit_char (n div 10), digit_char (n mod 10)]"
  by (subst dec_digits.simps) (simp add: dec_digits_small)

lemma fmt_02d_two_digits:
  assumes "0 \<le> n" "n < 100"
  shows "fmt_02d n = spec_two_digits n"
proof (cases "n < 10")
  case True
  with assms have "nat n < 10" "n div 10 = 0" "n mod 10 = n" by simp_all
  then show ?thesis using assms
    by (simp add: fmt_02d_def spec_two_digits_def dec_digits_small digit_char_def)
next
  case False
  with assms have "10 \<le> nat n" "nat n < 100" by simp_all
  then show ?thesis using assms
    by (simp add: fmt_02d_def spec_two_digits_def dec_digits_two nat_div_distrib nat_mod_distrib)
qed

lemma mdate_in_calendar:
  assumes "1 \<le> month dt" "month dt \<le> 12" "1 \<le> day dt" "day dt \<le> 31"
  shows "mdate dt = spec_MMDD (month dt) (day dt)"
  using assms by (simp add: mdate_def spec_MMDD_def fmt_02d_two_digits)

text \<open>No formatted number contains a NUL character, so no command does either.\<close>

lemma digit_char_not_nul: "digit_char n \<noteq> CHR 0x00"
proof -
  have "n mod 10 < 10" by simp
  then have "n mod 10 \<in> {0,1,2,3,4,5,6,7,8,9}" by (simp only: insert_iff empty_iff) arith
  then show ?thesis unfolding digit_char_def by auto
qed

lemma dec_digits_no_nul: "CHR 0x00 \<notin> set (dec_digits n)"
proof (induction n rule: dec_digits.induct)
  case (1 n)
  show ?case
  proof (cases "n < 10")
    case True
    then show ?thesis by (simp add: dec_digits_small digit_char_not_nul[symmetric])
  next
    case False
    with 1 have "CHR 0x00 \<notin> set (dec_digits (n div 10))" by simp
    with False show ?thesis
      by (subst dec_digits.simps) (simp add: digit_char_not_nul[symmetric])
  qed
qed

lemma fmt_02d_no_nul: "CHR 0x00 \<notin> set (fmt_02d n)"
  by (auto simp: fmt_02d_def Let_def dec_digits_no_nul)

lemma build_cmd_no_nul: "CHR 0x00 \<notin> set (build_cmd dt)"
  by (simp add: build_cmd_def mdate_def fmt_02d_no_nul)

section \<open>What a run of each script does\<close>

lemma tag_cmd_no_nul: "CHR 0x00 \<notin> set tag_cmd"
  by (simp add: tag_cmd_def)

lemma push_cmd_no_nul: "CHR 0x00 \<notin> set push_cmd"
  by (simp add: push_cmd_def)

lemmas run_defs =
  os_system_def print2_def finalize_def flush_buffer_def fd_write_def start_def

text \<open>The build script, one lemma for each way standard output can be set up.\<close>

lemma build_main_NoStdout:
  "stdout_mode w = NoStdout \<Longrightarrow>
   build_main w = \<lparr>exit_code = 0, trace = [Exec (build_cmd (today w)), Exec tag_cmd]\<rparr>"
  by (simp add: build_main_def run_defs build_cmd_no_nul tag_cmd_no_nul)

lemma build_main_BlockBuffered:
  "stdout_mode w = BlockBuffered \<Longrightarrow>
   build_main w =
     (if write_ok w 0 (''Running: '' @ '' '' @ tag_cmd @ [CHR 0x0A])
      then \<lparr>exit_code = 0,
            trace = [Exec (build_cmd (today w)), Exec tag_cmd,
                     Stdout (''Running: '' @ '' '' @ tag_cmd @ [CHR 0x0A])]\<rparr>
      else \<lparr>exit_code = 120, trace = [Exec (build_cmd (today w)), Exec tag_cmd]\<rparr>)"
  by (simp add: build_main_def run_defs build_cmd_no_nul tag_cmd_no_nul)

lemma build_main_LineBuffered:
  "stdout_mode w = LineBuffered \<Longrightarrow>
   build_main w =
     (if write_ok w 0 (''Running: '' @ '' '' @ tag_cmd @ [CHR 0x0A])
      then \<lparr>exit_code = 0,
            trace = [Exec (build_cmd (today w)),
                     Stdout (''Running: '' @ '' '' @ tag_cmd @ [CHR 0x0A]), Exec tag_cmd]\<rparr>
      else if write_ok w 1 (''Running: '' @ '' '' @ tag_cmd @ [CHR 0x0A])
      then \<lparr>exit_code = 1,
            trace = [Exec (build_cmd (today w)),
                     Stdout (''Running: '' @ '' '' @ tag_cmd @ [CHR 0x0A])]\<rparr>
      else \<lparr>exit_code = 120, trace = [Exec (build_cmd (today w))]\<rparr>)"
  by (simp add: build_main_def run_defs build_cmd_no_nul tag_cmd_no_nul)

lemma build_main_Unbuffered:
  "stdout_mode w = Unbuffered \<Longrightarrow>
   build_main w =
     (if \<not> write_ok w 0 ''Running: ''
      then \<lparr>exit_code = 1, trace = [Exec (build_cmd (today w))]\<rparr>
      else if \<not> write_ok w 1 '' ''
      then \<lparr>exit_code = 1, trace = [Exec (build_cmd (today w)), Stdout ''Running: '']\<rparr>
      else if \<not> write_ok w 2 tag_cmd
      then \<lparr>exit_code = 1,
            trace = [Exec (build_cmd (today w)), Stdout ''Running: '', Stdout '' '']\<rparr>
      else if \<not> write_ok w 3 [CHR 0x0A]
      then \<lparr>exit_code = 1,
            trace = [Exec (build_cmd (today w)), Stdout ''Running: '', Stdout '' '',
                     Stdout tag_cmd]\<rparr>
      else \<lparr>exit_code = 0,
            trace = [Exec (build_cmd (today w)), Stdout ''Running: '', Stdout '' '',
                     Stdout tag_cmd, Stdout [CHR 0x0A], Exec tag_cmd]\<rparr>)"
  by (simp add: build_main_def run_defs build_cmd_no_nul tag_cmd_no_nul
        numeral_2_eq_2 numeral_3_eq_3)

text \<open>The push script.\<close>

lemma push_main_NoStdout:
  "stdout_mode w = NoStdout \<Longrightarrow> push_main w = \<lparr>exit_code = 0, trace = [Exec push_cmd]\<rparr>"
  by (simp add: push_main_def run_defs push_cmd_no_nul)

lemma push_main_BlockBuffered:
  "stdout_mode w = BlockBuffered \<Longrightarrow>
   push_main w =
     (if write_ok w 0 (''Running: '' @ '' '' @ push_cmd @ [CHR 0x0A])
      then \<lparr>exit_code = 0,
            trace = [Exec push_cmd, Stdout (''Running: '' @ '' '' @ push_cmd @ [CHR 0x0A])]\<rparr>
      else \<lparr>exit_code = 120, trace = [Exec push_cmd]\<rparr>)"
  by (simp add: push_main_def run_defs push_cmd_no_nul)

lemma push_main_LineBuffered:
  "stdout_mode w = LineBuffered \<Longrightarrow>
   push_main w =
     (if write_ok w 0 (''Running: '' @ '' '' @ push_cmd @ [CHR 0x0A])
      then \<lparr>exit_code = 0,
            trace = [Stdout (''Running: '' @ '' '' @ push_cmd @ [CHR 0x0A]), Exec push_cmd]\<rparr>
      else if write_ok w 1 (''Running: '' @ '' '' @ push_cmd @ [CHR 0x0A])
      then \<lparr>exit_code = 1, trace = [Stdout (''Running: '' @ '' '' @ push_cmd @ [CHR 0x0A])]\<rparr>
      else \<lparr>exit_code = 120, trace = []\<rparr>)"
  by (simp add: push_main_def run_defs push_cmd_no_nul)

lemma push_main_Unbuffered:
  "stdout_mode w = Unbuffered \<Longrightarrow>
   push_main w =
     (if \<not> write_ok w 0 ''Running: ''
      then \<lparr>exit_code = 1, trace = []\<rparr>
      else if \<not> write_ok w 1 '' ''
      then \<lparr>exit_code = 1, trace = [Stdout ''Running: '']\<rparr>
      else if \<not> write_ok w 2 push_cmd
      then \<lparr>exit_code = 1, trace = [Stdout ''Running: '', Stdout '' '']\<rparr>
      else if \<not> write_ok w 3 [CHR 0x0A]
      then \<lparr>exit_code = 1, trace = [Stdout ''Running: '', Stdout '' '', Stdout push_cmd]\<rparr>
      else \<lparr>exit_code = 0,
            trace = [Stdout ''Running: '', Stdout '' '', Stdout push_cmd, Stdout [CHR 0x0A],
                     Exec push_cmd]\<rparr>)"
  by (simp add: push_main_def run_defs push_cmd_no_nul numeral_2_eq_2 numeral_3_eq_3)

lemmas build_main_modes =
  build_main_NoStdout build_main_BlockBuffered build_main_LineBuffered build_main_Unbuffered

lemmas push_main_modes =
  push_main_NoStdout push_main_BlockBuffered push_main_LineBuffered push_main_Unbuffered

text \<open>When \<^verbatim>\<open>print\<close> raises.\<close>

lemma print_raises_mode:
  "print_raises w a b =
     (case stdout_mode w of
        NoStdout \<Rightarrow> False
      | BlockBuffered \<Rightarrow> False
      | LineBuffered \<Rightarrow> \<not> write_ok w 0 (a @ '' '' @ b @ [CHR 0x0A])
      | Unbuffered \<Rightarrow>
          \<not> (write_ok w 0 a \<and> write_ok w 1 '' '' \<and> write_ok w 2 b \<and> write_ok w 3 [CHR 0x0A]))"
  by (cases "stdout_mode w")
     (simp_all add: print_raises_def run_defs numeral_2_eq_2 numeral_3_eq_3)

text \<open>The statuses of the commands are read by nothing.\<close>

lemma stdout_mode_system_status: "stdout_mode (w\<lparr>system_status := st\<rparr>) = stdout_mode w"
  by (simp add: stdout_mode_def unbuffered_def)

lemma today_system_status: "today (w\<lparr>system_status := st\<rparr>) = today w"
  by (simp add: today_def)

lemma print_raises_system_status:
  "print_raises (w\<lparr>system_status := st\<rparr>) a b = print_raises w a b"
  by (cases "stdout_mode w") (simp_all add: print_raises_mode stdout_mode_system_status)

lemma build_main_system_status: "build_main (w\<lparr>system_status := st\<rparr>) = build_main w"
  by (cases "stdout_mode w")
     (simp_all add: build_main_modes stdout_mode_system_status today_system_status)


text \<open>Nor are the command-line arguments.\<close>

lemma build_main_argv: "build_main (w\<lparr>argv := a\<rparr>) = build_main w"
proof -
  have m: "stdout_mode (w\<lparr>argv := a\<rparr>) = stdout_mode w"
    by (simp add: stdout_mode_def unbuffered_def)
  have t: "today (w\<lparr>argv := a\<rparr>) = today w"
    by (simp add: today_def)
  show ?thesis
    by (cases "stdout_mode w") (simp_all add: build_main_modes m t)
qed

lemma push_main_argv: "push_main (w\<lparr>argv := a\<rparr>) = push_main w"
proof -
  have m: "stdout_mode (w\<lparr>argv := a\<rparr>) = stdout_mode w"
    by (simp add: stdout_mode_def unbuffered_def)
  show ?thesis
    by (cases "stdout_mode w") (simp_all add: push_main_modes m)
qed

text \<open>The commands a run executes.\<close>

lemma execs_build_main:
  "execs (trace (build_main w)) =
     (if print_raises w ''Running: '' tag_cmd then [build_cmd (today w)]
      else [build_cmd (today w), tag_cmd])"
  by (cases "stdout_mode w") (simp_all add: build_main_modes print_raises_mode)

lemma execs_push_main:
  "execs (trace (push_main w)) =
     (if print_raises w ''Running: '' push_cmd then [] else [push_cmd])"
  by (cases "stdout_mode w") (simp_all add: push_main_modes print_raises_mode)



section \<open>The claims\<close>




text \<open>
  C2. For every date whose month is in 1..12 and whose day is in 1..31, the build command
  contains the substring \<^verbatim>\<open>--build-arg BDATE=MMDD\<close>, where MM and DD are the month and
  the day written with two decimal digits.
\<close>

theorem C2_build_cmd_contains_bdate:
  assumes "1 \<le> month dt" "month dt \<le> 12" "1 \<le> day dt" "day dt \<le> 31"
  shows "sublist (''--build-arg BDATE='' @ spec_MMDD (month dt) (day dt)) (build_cmd dt)"
proof -
  have "build_cmd dt =
     ''docker build --progress=plain --no-cache=false -f Dockerfile . -t pycsep_quakeworx_workshop --build-arg APP_UNAME=csepuser --build-arg APP_GRPNAME=csepuser --build-arg APP_UID=1000 --build-arg APP_GID=1000 '' @
     (''--build-arg BDATE='' @ spec_MMDD (month dt) (day dt))"
    using assms by (simp add: build_cmd_def mdate_in_calendar)
  then show ?thesis by (simp only: sublist_append_leftI)
qed

text \<open>The three dates of the specification: 7 March, 1 January and 23 November.\<close>

theorem C2_build_cmd_contains_bdate_witness:
  "sublist ''--build-arg BDATE=0307'' (build_cmd \<lparr>year = 2024, month = 3, day = 7, hour = 0, minute = 0, second = 0, microsecond = 0\<rparr>) \<and>
   sublist ''--build-arg BDATE=0101'' (build_cmd \<lparr>year = 2024, month = 1, day = 1, hour = 0, minute = 0, second = 0, microsecond = 0\<rparr>) \<and>
   sublist ''--build-arg BDATE=1123'' (build_cmd \<lparr>year = 2024, month = 11, day = 23, hour = 0, minute = 0, second = 0, microsecond = 0\<rparr>)"
  using C2_build_cmd_contains_bdate [of "\<lparr>year = 2024, month = 3, day = 7, hour = 0, minute = 0, second = 0, microsecond = 0\<rparr>"]
        C2_build_cmd_contains_bdate [of "\<lparr>year = 2024, month = 1, day = 1, hour = 0, minute = 0, second = 0, microsecond = 0\<rparr>"]
        C2_build_cmd_contains_bdate [of "\<lparr>year = 2024, month = 11, day = 23, hour = 0, minute = 0, second = 0, microsecond = 0\<rparr>"]
  by (simp add: spec_MMDD_def spec_two_digits_def digit_char_def)

text \<open>
  C3. For every date (no condition on it at all), the build command contains each of the
  four fixed build arguments with its literal value.
\<close>

theorem C3_build_cmd_fixed_arguments:
  "sublist ''--build-arg APP_UNAME=csepuser'' (build_cmd dt) \<and>
   sublist ''--build-arg APP_GRPNAME=csepuser'' (build_cmd dt) \<and>
   sublist ''--build-arg APP_UID=1000'' (build_cmd dt) \<and>
   sublist ''--build-arg APP_GID=1000'' (build_cmd dt)"
proof (intro conjI)
  have "build_cmd dt =
     ''docker build --progress=plain --no-cache=false -f Dockerfile . -t pycsep_quakeworx_workshop '' @
     ''--build-arg APP_UNAME=csepuser'' @
     ('' --build-arg APP_GRPNAME=csepuser --build-arg APP_UID=1000 --build-arg APP_GID=1000 --build-arg BDATE='' @ mdate dt)"
    by (simp add: build_cmd_def)
  then show "sublist ''--build-arg APP_UNAME=csepuser'' (build_cmd dt)"
    by (simp only: sublist_appendI)
next
  have "build_cmd dt =
     ''docker build --progress=plain --no-cache=false -f Dockerfile . -t pycsep_quakeworx_workshop --build-arg APP_UNAME=csepuser '' @
     ''--build-arg APP_GRPNAME=csepuser'' @
     ('' --build-arg APP_UID=1000 --build-arg APP_GID=1000 --build-arg BDATE='' @ mdate dt)"
    by (simp add: build_cmd_def)
  then show "sublist ''--build-arg APP_GRPNAME=csepuser'' (build_cmd dt)"
    by (simp only: sublist_appendI)
next
  have "build_cmd dt =
     ''docker build --progress=plain --no-cache=false -f Dockerfile . -t pycsep_quakeworx_workshop --build-arg APP_UNAME=csepuser --build-arg APP_GRPNAME=csepuser '' @
     ''--build-arg APP_UID=1000'' @
     ('' --build-arg APP_GID=1000 --build-arg BDATE='' @ mdate dt)"
    by (simp add: build_cmd_def)
  then show "sublist ''--build-arg APP_UID=1000'' (build_cmd dt)"
    by (simp only: sublist_appendI)
next
  have "build_cmd dt =
     ''docker build --progress=plain --no-cache=false -f Dockerfile . -t pycsep_quakeworx_workshop --build-arg APP_UNAME=csepuser --build-arg APP_GRPNAME=csepuser --build-arg APP_UID=1000 '' @
     ''--build-arg APP_GID=1000'' @
     ('' --build-arg BDATE='' @ mdate dt)"
    by (simp add: build_cmd_def)
  then show "sublist ''--build-arg APP_GID=1000'' (build_cmd dt)"
    by (simp only: sublist_appendI)
qed

text \<open>
  C4. On a calendar date (month in 1..12, day in 1..31), the first command the build
  utility executes is exactly the build command of the external-interface section, with
  the two-digit month and day at its end and nothing after them.
\<close>

theorem C4_first_command_exact:
  assumes "1 \<le> month (today w)" "month (today w) \<le> 12"
    and "1 \<le> day (today w)" "day (today w) \<le> 31"
  shows "\<exists>rest. execs (trace (build_main w)) =
     (''docker build --progress=plain --no-cache=false -f Dockerfile . -t pycsep_quakeworx_workshop --build-arg APP_UNAME=csepuser --build-arg APP_GRPNAME=csepuser --build-arg APP_UID=1000 --build-arg APP_GID=1000 --build-arg BDATE=''
        @ spec_MMDD (month (today w)) (day (today w))) # rest"
  using assms by (simp add: execs_build_main build_cmd_def mdate_in_calendar)

theorem C4_first_command_exact_witness:
  "\<exists>rest. execs (trace (build_main world_ok)) =
     ''docker build --progress=plain --no-cache=false -f Dockerfile . -t pycsep_quakeworx_workshop --build-arg APP_UNAME=csepuser --build-arg APP_GRPNAME=csepuser --build-arg APP_UID=1000 --build-arg APP_GID=1000 --build-arg BDATE=1231'' # rest"
  using C4_first_command_exact [of world_ok]
  by (simp add: world_ok_def today_def spec_MMDD_def spec_two_digits_def digit_char_def)

text \<open>
  C5. For every date and every status the build command may return: when the
  \<^verbatim>\<open>print\<close> call that stands between the two commands does not raise, the second
  command the build utility executes is exactly the re-tag command, a constant string;
  when that call raises, the build command is the only command executed.
\<close>

theorem C5_second_command_is_tag_unless_print_raises:
  "(\<not> print_raises w ''Running: '' tag_cmd \<longrightarrow>
      (\<exists>first. execs (trace (build_main (w\<lparr>system_status := st\<rparr>))) =
         [first, ''docker tag pycsep_quakeworx_workshop sceccode/pycsep_quakeworx_workshop''])) \<and>
   (print_raises w ''Running: '' tag_cmd \<longrightarrow>
      (\<exists>first. execs (trace (build_main (w\<lparr>system_status := st\<rparr>))) = [first]))"
  by (simp add: build_main_system_status execs_build_main tag_cmd_def)

theorem C5_second_command_is_tag_unless_print_raises_witness:
  "\<not> print_raises world_failing ''Running: '' tag_cmd \<and>
   (\<exists>first. execs (trace (build_main world_failing)) =
      [first, ''docker tag pycsep_quakeworx_workshop sceccode/pycsep_quakeworx_workshop''])"
proof -
  have n: "\<not> print_raises world_failing ''Running: '' tag_cmd"
    by (simp add: print_raises_mode stdout_mode_def unbuffered_def world_failing_def)
  have e: "world_failing\<lparr>system_status := system_status world_failing\<rparr> = world_failing"
    by simp
  from n C5_second_command_is_tag_unless_print_raises
    [where w = world_failing and st = "system_status world_failing"]
  show ?thesis by (simp only: e simp_thms)
qed

text \<open>
  With \<^verbatim>\<open>PYTHONUNBUFFERED=1\<close> and standard output on a device that refuses every
  write, \<^verbatim>\<open>print\<close> raises and the run executes the build command and nothing else.
\<close>

theorem C5_second_command_counterexample:
  "execs (trace (build_main world_full_unbuffered)) =
     [''docker build --progress=plain --no-cache=false -f Dockerfile . -t pycsep_quakeworx_workshop --build-arg APP_UNAME=csepuser --build-arg APP_GRPNAME=csepuser --build-arg APP_UID=1000 --build-arg APP_GID=1000 --build-arg BDATE=1231'']"
proof -
  have u: "stdout_mode world_full_unbuffered = Unbuffered"
    by (simp add: stdout_mode_def unbuffered_def world_full_unbuffered_def world_full_def
          world_ok_def)
  have t: "build_cmd (today world_full_unbuffered) =
     ''docker build --progress=plain --no-cache=false -f Dockerfile . -t pycsep_quakeworx_workshop --build-arg APP_UNAME=csepuser --build-arg APP_GRPNAME=csepuser --build-arg APP_UID=1000 --build-arg APP_GID=1000 --build-arg BDATE=1231''"
    by (simp add: build_cmd_def mdate_in_calendar today_def world_full_unbuffered_def
          world_full_def world_ok_def spec_MMDD_def spec_two_digits_def digit_char_def)
  show ?thesis
    by (simp add: build_main_Unbuffered [OF u] t)
       (simp add: world_full_unbuffered_def world_full_def world_ok_def)
qed

text \<open>
  C6. A run of the push utility in which \<^verbatim>\<open>print\<close> does not raise executes exactly
  one command, the constant string \<^verbatim>\<open>docker push sceccode/pycsep_quakeworx_workshop\<close>; a run in
  which \<^verbatim>\<open>print\<close> raises executes no command.
\<close>

theorem C6_push_executes_push_cmd_unless_print_raises:
  "execs (trace (push_main w)) =
     (if print_raises w ''Running: '' push_cmd then []
      else [''docker push sceccode/pycsep_quakeworx_workshop''])"
  by (simp add: execs_push_main push_cmd_def)

theorem C6_push_executes_push_cmd_unless_print_raises_witness:
  "\<not> print_raises world_ok ''Running: '' push_cmd \<and>
   execs (trace (push_main world_ok)) = [''docker push sceccode/pycsep_quakeworx_workshop'']"
proof -
  have n: "\<not> print_raises world_ok ''Running: '' push_cmd"
    by (simp add: print_raises_mode stdout_mode_def unbuffered_def world_ok_def)
  with C6_push_executes_push_cmd_unless_print_raises [of world_ok]
  show ?thesis by simp
qed

theorem C6_push_counterexample:
  "execs (trace (push_main world_full_unbuffered)) = []"
proof -
  have u: "stdout_mode world_full_unbuffered = Unbuffered"
    by (simp add: stdout_mode_def unbuffered_def world_full_unbuffered_def world_full_def
          world_ok_def)
  show ?thesis
    by (simp add: push_main_Unbuffered [OF u])
       (simp add: world_full_unbuffered_def world_full_def world_ok_def)
qed

text \<open>
  C7. Every run of the build utility executes the build command first. The re-tag
  command follows as the second and last command exactly when the \<^verbatim>\<open>print\<close> call
  between the two does not raise, whatever statuses the commands return. No other command
  is executed.
\<close>

theorem C7_build_executes_build_then_tag:
  "execs (trace (build_main (w\<lparr>system_status := st\<rparr>))) =
     (if print_raises w ''Running: '' tag_cmd then [build_cmd (today w)]
      else [build_cmd (today w), tag_cmd])"
  by (simp add: build_main_system_status execs_build_main)

theorem C7_build_executes_build_then_tag_witness:
  "\<not> print_raises world_failing ''Running: '' tag_cmd \<and>
   execs (trace (build_main world_failing)) = [build_cmd (today world_failing), tag_cmd]"
proof -
  have n: "\<not> print_raises world_failing ''Running: '' tag_cmd"
    by (simp add: print_raises_mode stdout_mode_def unbuffered_def world_failing_def)
  have e: "world_failing\<lparr>system_status := system_status world_failing\<rparr> = world_failing"
    by simp
  from n C7_build_executes_build_then_tag
    [where w = world_failing and st = "system_status world_failing"]
  show ?thesis by (simp only: e simp_thms if_False)
qed

theorem C7_two_commands_counterexample:
  "length (execs (trace (build_main world_full_unbuffered))) = 1 \<and>
   tag_cmd \<notin> set (execs (trace (build_main world_full_unbuffered)))"
proof -
  have u: "stdout_mode world_full_unbuffered = Unbuffered"
    by (simp add: stdout_mode_def unbuffered_def world_full_unbuffered_def world_full_def
          world_ok_def)
  have w: "\<not> write_ok world_full_unbuffered 0 ''Running: ''"
    by (simp add: world_full_unbuffered_def world_full_def world_ok_def)
  have d: "build_cmd (today world_full_unbuffered) \<noteq> tag_cmd"
    by (simp add: build_cmd_def tag_cmd_def)
  show ?thesis
    using d by (simp add: build_main_Unbuffered [OF u] w)
qed







text \<open>
  C10. The command strings are functions of the local date alone: the build command is
  fixed by the month and the day that \<^verbatim>\<open>datetime.datetime.today()\<close> returns, the
  re-tag and the push command are constants. Two runs of the build utility whose local
  dates agree in month and day compose the same build command and, when \<^verbatim>\<open>print\<close>
  raises in neither, execute the same two commands; two runs of the push utility in which
  \<^verbatim>\<open>print\<close> does not raise execute the same command. The command-line arguments
  influence nothing.
\<close>

theorem C10_commands_depend_on_local_date_only:
  "(month (today w1) = month (today w2) \<and> day (today w1) = day (today w2) \<longrightarrow>
      build_cmd (today w1) = build_cmd (today w2)) \<and>
   (month (today w1) = month (today w2) \<and> day (today w1) = day (today w2) \<and>
    \<not> print_raises w1 ''Running: '' tag_cmd \<and> \<not> print_raises w2 ''Running: '' tag_cmd \<longrightarrow>
      execs (trace (build_main w1)) = execs (trace (build_main w2))) \<and>
   (\<not> print_raises w1 ''Running: '' push_cmd \<and> \<not> print_raises w2 ''Running: '' push_cmd \<longrightarrow>
      execs (trace (push_main w1)) = execs (trace (push_main w2))) \<and>
   build_main (w1\<lparr>argv := a\<rparr>) = build_main w1 \<and>
   push_main (w1\<lparr>argv := a\<rparr>) = push_main w1"
proof (intro conjI impI)
  assume "month (today w1) = month (today w2) \<and> day (today w1) = day (today w2)"
  then show "build_cmd (today w1) = build_cmd (today w2)"
    by (simp add: build_cmd_def mdate_def)
next
  assume "month (today w1) = month (today w2) \<and> day (today w1) = day (today w2) \<and>
    \<not> print_raises w1 ''Running: '' tag_cmd \<and> \<not> print_raises w2 ''Running: '' tag_cmd"
  then show "execs (trace (build_main w1)) = execs (trace (build_main w2))"
    by (simp add: execs_build_main build_cmd_def mdate_def)
next
  assume "\<not> print_raises w1 ''Running: '' push_cmd \<and> \<not> print_raises w2 ''Running: '' push_cmd"
  then show "execs (trace (push_main w1)) = execs (trace (push_main w2))"
    by (simp add: execs_push_main)
next
  show "build_main (w1\<lparr>argv := a\<rparr>) = build_main w1"
    by (rule build_main_argv)
  show "push_main (w1\<lparr>argv := a\<rparr>) = push_main w1"
    by (rule push_main_argv)
qed

theorem C10_commands_depend_on_local_date_only_witness:
  "today world_ok \<noteq> today world_failing \<and>
   argv world_ok \<noteq> argv world_failing \<and>
   environ world_ok \<noteq> environ world_failing \<and>
   stdout_fd world_ok \<noteq> stdout_fd world_failing \<and>
   system_status world_ok [] tag_cmd \<noteq> system_status world_failing [] tag_cmd \<and>
   month (today world_ok) = month (today world_failing) \<and>
   day (today world_ok) = day (today world_failing) \<and>
   execs (trace (build_main world_ok)) = execs (trace (build_main world_failing)) \<and>
   execs (trace (push_main world_ok)) = execs (trace (push_main world_failing))"
proof -
  have n: "\<not> print_raises world_ok a b" "\<not> print_raises world_failing a b" for a b
    by (simp_all add: print_raises_mode stdout_mode_def unbuffered_def world_ok_def
          world_failing_def)
  have d: "month (today world_ok) = month (today world_failing)"
    "day (today world_ok) = day (today world_failing)"
    by (simp_all add: today_def world_ok_def world_failing_def)
  have o: "today world_ok \<noteq> today world_failing"
    "argv world_ok \<noteq> argv world_failing"
    "environ world_ok \<noteq> environ world_failing"
    "stdout_fd world_ok \<noteq> stdout_fd world_failing"
    "system_status world_ok [] tag_cmd \<noteq> system_status world_failing [] tag_cmd"
    by (simp_all add: today_def world_ok_def world_failing_def)
  note t = C10_commands_depend_on_local_date_only [of world_ok world_failing "[]"]
  have b: "execs (trace (build_main world_ok)) = execs (trace (build_main world_failing))"
    using t n d by blast
  have p: "execs (trace (push_main world_ok)) = execs (trace (push_main world_failing))"
    using t n by blast
  from o d b p show ?thesis by blast
qed

text \<open>
  Two runs at the same instant that differ in the value of the environment variable
  \<^verbatim>\<open>TZ\<close> and in nothing else execute different build commands.
\<close>

theorem C10_environment_counterexample:
  "world_tz_west = world_tz_east\<lparr>environ := [(''TZ'', ''UTC+12'')]\<rparr> \<and>
   execs (trace (build_main world_tz_east)) =
     [''docker build --progress=plain --no-cache=false -f Dockerfile . -t pycsep_quakeworx_workshop --build-arg APP_UNAME=csepuser --build-arg APP_GRPNAME=csepuser --build-arg APP_UID=1000 --build-arg APP_GID=1000 --build-arg BDATE=1104'',
      ''docker tag pycsep_quakeworx_workshop sceccode/pycsep_quakeworx_workshop''] \<and>
   execs (trace (build_main world_tz_west)) =
     [''docker build --progress=plain --no-cache=false -f Dockerfile . -t pycsep_quakeworx_workshop --build-arg APP_UNAME=csepuser --build-arg APP_GRPNAME=csepuser --build-arg APP_UID=1000 --build-arg APP_GID=1000 --build-arg BDATE=1103'',
      ''docker tag pycsep_quakeworx_workshop sceccode/pycsep_quakeworx_workshop'']"
proof -
  have n: "\<not> print_raises world_tz_east a b" "\<not> print_raises world_tz_west a b" for a b
    by (simp_all add: print_raises_mode stdout_mode_def unbuffered_def world_tz_west_def
          world_tz_east_def)
  have e: "build_cmd (today world_tz_east) =
     ''docker build --progress=plain --no-cache=false -f Dockerfile . -t pycsep_quakeworx_workshop --build-arg APP_UNAME=csepuser --build-arg APP_GRPNAME=csepuser --build-arg APP_UID=1000 --build-arg APP_GID=1000 --build-arg BDATE=1104''"
    by (simp add: build_cmd_def mdate_in_calendar today_def world_tz_east_def
          spec_MMDD_def spec_two_digits_def digit_char_def)
  have w: "build_cmd (today world_tz_west) =
     ''docker build --progress=plain --no-cache=false -f Dockerfile . -t pycsep_quakeworx_workshop --build-arg APP_UNAME=csepuser --build-arg APP_GRPNAME=csepuser --build-arg APP_UID=1000 --build-arg APP_GID=1000 --build-arg BDATE=1103''"
    by (simp add: build_cmd_def mdate_in_calendar today_def world_tz_west_def
          world_tz_east_def spec_MMDD_def spec_two_digits_def digit_char_def)
  show ?thesis
    by (simp add: execs_build_main n e w) (simp add: world_tz_west_def tag_cmd_def)
qed

end
